theory Spec2Isabelle
  imports Main "HOL-Library.Sublist"
begin

section \<open>Calls that return or throw\<close>

text \<open>
  A JavaScript call either returns a value or throws one. The outcome of a call is a
  value of \<open>'x + 'a\<close>: \<open>Inl x\<close> when \<open>x\<close> was thrown, \<open>Inr v\<close> when \<open>v\<close> was
  returned. A callback handed to the library is a function into such outcomes, so a
  callback that throws is an ordinary input of the model.
\<close>

definition then_do :: "'x + 'a \<Rightarrow> ('a \<Rightarrow> 'x + 'b) \<Rightarrow> 'x + 'b" where
  \<comment> \<open>sequencing: a throw in the first call skips the rest\<close>
  "then_do c k = (case c of Inl x \<Rightarrow> Inl x | Inr v \<Rightarrow> k v)"

definition try_catch :: "'x + 'a \<Rightarrow> ('x \<Rightarrow> 'y + 'a) \<Rightarrow> 'y + 'a" where
  \<comment> \<open>\<^verbatim>\<open>try { body } catch (error) { handler }\<close>\<close>
  "try_catch body handler = (case body of Inl x \<Rightarrow> handler x | Inr v \<Rightarrow> Inr v)"

section \<open>The Result type and its two constructors\<close>

text \<open>
  \<^verbatim>\<open>Result<T, E> = Ok<T> | Err<E>\<close>. The field \<^verbatim>\<open>success\<close> is the discriminator,
  \<^verbatim>\<open>data\<close> and \<^verbatim>\<open>error\<close> are the two payload fields. The source stores \<^verbatim>\<open>null\<close>
  in the field a variant does not use; the library reads \<^verbatim>\<open>data\<close> only behind
  \<^verbatim>\<open>isOk()\<close> and \<^verbatim>\<open>error\<close> only behind \<^verbatim>\<open>isErr()\<close>, and so does the model.
\<close>

datatype ('a, 'e) result = success: Ok (data: 'a) | Err (error: 'e)

definition ok :: "'a \<Rightarrow> ('a, 'e) result" where
  "ok d = Ok d"

definition err :: "'e \<Rightarrow> ('a, 'e) result" where
  "err e = Err e"

text \<open>
  What \<^verbatim>\<open>JSON.stringify\<close> hands back to a template literal: a string, or
  \<^verbatim>\<open>undefined\<close> (\<open>None\<close>), which the template literal prints as the word
  \<^verbatim>\<open>undefined\<close>.
\<close>

definition template_text :: "string option \<Rightarrow> string" where
  "template_text t = (case t of None \<Rightarrow> ''undefined'' | Some s \<Rightarrow> s)"

text \<open>
  The objects thrown by the library and by \<^verbatim>\<open>JSON.stringify\<close>, with their
  \<^verbatim>\<open>message\<close>.
\<close>

datatype js_error = Error string | TypeError string

subsection \<open>The methods of the object built by \<^verbatim>\<open>ok(data)\<close>\<close>

text \<open>Each method closes over \<^verbatim>\<open>data\<close>, here the first argument \<open>d\<close>.\<close>

definition ok_isOk :: "'a \<Rightarrow> bool" where
  "ok_isOk d = True"

definition ok_isErr :: "'a \<Rightarrow> bool" where
  "ok_isErr d = False"

definition ok_map :: "'a \<Rightarrow> ('a \<Rightarrow> 'x + 'b) \<Rightarrow> 'x + ('b, 'e) result" where
  "ok_map d fn = then_do (fn d) (\<lambda>u. Inr (ok u))"

definition ok_mapErr :: "'a \<Rightarrow> ('e \<Rightarrow> 'x + 'f) \<Rightarrow> 'x + ('a, 'f) result" where
  \<comment> \<open>\<^verbatim>\<open>return this\<close>, the object \<^verbatim>\<open>ok(data)\<close> under another static type\<close>
  "ok_mapErr d fn = Inr (ok d)"

definition ok_andThen :: "'a \<Rightarrow> ('a \<Rightarrow> 'x + ('b, 'f) result) \<Rightarrow> 'x + ('b, 'f) result" where
  "ok_andThen d fn = fn d"

definition ok_unwrapOr :: "'a \<Rightarrow> 'a \<Rightarrow> 'a" where
  "ok_unwrapOr d defaultValue = d"

definition ok_unwrap :: "'a \<Rightarrow> js_error + 'a" where
  "ok_unwrap d = Inr d"

definition ok_expect :: "'a \<Rightarrow> string \<Rightarrow> js_error + 'a" where
  "ok_expect d message = Inr d"

subsection \<open>The methods of the object built by \<^verbatim>\<open>err(error)\<close>\<close>

text \<open>
  Each method closes over \<^verbatim>\<open>error\<close>, here the argument \<open>e\<close>. \<^verbatim>\<open>unwrap\<close> and
  \<^verbatim>\<open>expect\<close> call the host's \<^verbatim>\<open>JSON.stringify\<close>, which is not code of the
  repository: it is the parameter \<open>stringify\<close>, a call like any other, that returns a
  string or \<^verbatim>\<open>undefined\<close>, or throws.
\<close>

definition err_isOk :: "'e \<Rightarrow> bool" where
  "err_isOk e = False"

definition err_isErr :: "'e \<Rightarrow> bool" where
  "err_isErr e = True"

definition err_map :: "'e \<Rightarrow> ('a \<Rightarrow> 'x + 'b) \<Rightarrow> 'x + ('b, 'e) result" where
  \<comment> \<open>\<^verbatim>\<open>return this\<close>\<close>
  "err_map e fn = Inr (err e)"

definition err_mapErr :: "'e \<Rightarrow> ('e \<Rightarrow> 'x + 'f) \<Rightarrow> 'x + ('a, 'f) result" where
  "err_mapErr e fn = then_do (fn e) (\<lambda>u. Inr (err u))"

definition err_andThen :: "'e \<Rightarrow> ('a \<Rightarrow> 'x + ('b, 'f) result) \<Rightarrow> 'x + ('b, 'e) result" where
  \<comment> \<open>\<^verbatim>\<open>return this\<close>\<close>
  "err_andThen e fn = Inr (err e)"

definition err_unwrapOr :: "'e \<Rightarrow> 'a \<Rightarrow> 'a" where
  "err_unwrapOr e defaultValue = defaultValue"

definition err_unwrap :: "('e \<Rightarrow> js_error + string option) \<Rightarrow> 'e \<Rightarrow> js_error + 'a" where
  "err_unwrap stringify e =
     then_do (stringify e)
       (\<lambda>t. Inl (Error (''Called unwrap on an Err value: '' @ template_text t)))"

definition err_expect ::
  "('e \<Rightarrow> js_error + string option) \<Rightarrow> 'e \<Rightarrow> string \<Rightarrow> js_error + 'a" where
  "err_expect stringify e message =
     then_do (stringify e)
       (\<lambda>t. Inl (Error (message @ '': '' @ template_text t)))"

subsection \<open>Method calls on a Result\<close>

text \<open>
  \<^verbatim>\<open>r.map(fn)\<close> runs the \<^verbatim>\<open>map\<close> that the constructor of \<open>r\<close> attached to it.
\<close>

definition method_isOk :: "('a, 'e) result \<Rightarrow> bool" where
  "method_isOk r = (case r of Ok d \<Rightarrow> ok_isOk d | Err e \<Rightarrow> err_isOk e)"

definition method_isErr :: "('a, 'e) result \<Rightarrow> bool" where
  "method_isErr r = (case r of Ok d \<Rightarrow> ok_isErr d | Err e \<Rightarrow> err_isErr e)"

definition method_map :: "('a, 'e) result \<Rightarrow> ('a \<Rightarrow> 'x + 'b) \<Rightarrow> 'x + ('b, 'e) result" where
  "method_map r fn = (case r of Ok d \<Rightarrow> ok_map d fn | Err e \<Rightarrow> err_map e fn)"

definition method_mapErr :: "('a, 'e) result \<Rightarrow> ('e \<Rightarrow> 'x + 'f) \<Rightarrow> 'x + ('a, 'f) result" where
  "method_mapErr r fn = (case r of Ok d \<Rightarrow> ok_mapErr d fn | Err e \<Rightarrow> err_mapErr e fn)"

definition method_andThen ::
  "('a, 'e) result \<Rightarrow> ('a \<Rightarrow> 'x + ('b, 'e) result) \<Rightarrow> 'x + ('b, 'e) result" where
  "method_andThen r fn = (case r of Ok d \<Rightarrow> ok_andThen d fn | Err e \<Rightarrow> err_andThen e fn)"

definition method_unwrapOr :: "('a, 'e) result \<Rightarrow> 'a \<Rightarrow> 'a" where
  "method_unwrapOr r defaultValue =
     (case r of Ok d \<Rightarrow> ok_unwrapOr d defaultValue | Err e \<Rightarrow> err_unwrapOr e defaultValue)"

definition method_unwrap ::
  "('e \<Rightarrow> js_error + string option) \<Rightarrow> ('a, 'e) result \<Rightarrow> js_error + 'a" where
  "method_unwrap stringify r = (case r of Ok d \<Rightarrow> ok_unwrap d | Err e \<Rightarrow> err_unwrap stringify e)"

definition method_expect ::
  "('e \<Rightarrow> js_error + string option) \<Rightarrow> ('a, 'e) result \<Rightarrow> string \<Rightarrow> js_error + 'a" where
  "method_expect stringify r message =
     (case r of Ok d \<Rightarrow> ok_expect d message | Err e \<Rightarrow> err_expect stringify e message)"

section \<open>The functions of the \<^verbatim>\<open>Result\<close> namespace\<close>

definition Result_try :: "(unit \<Rightarrow> 'x + 'a) \<Rightarrow> 'y + ('a, 'x) result" where
  "Result_try fn =
     try_catch (then_do (fn ()) (\<lambda>v. Inr (ok v))) (\<lambda>error. Inr (err error))"

definition Result_map :: "('a, 'e) result \<Rightarrow> ('a \<Rightarrow> 'x + 'b) \<Rightarrow> 'x + ('b, 'e) result" where
  \<comment> \<open>the last branch is \<^verbatim>\<open>return result\<close>, an Err under another static type\<close>
  "Result_map result fn =
     (if method_isOk result then then_do (fn (data result)) (\<lambda>u. Inr (ok u))
      else Inr (Err (error result)))"

definition Result_mapErr :: "('a, 'e) result \<Rightarrow> ('e \<Rightarrow> 'x + 'f) \<Rightarrow> 'x + ('a, 'f) result" where
  \<comment> \<open>the last branch is \<^verbatim>\<open>return result\<close>, an Ok under another static type\<close>
  "Result_mapErr result fn =
     (if method_isErr result then then_do (fn (error result)) (\<lambda>u. Inr (err u))
      else Inr (Ok (data result)))"

definition Result_andThen ::
  "('a, 'e) result \<Rightarrow> ('a \<Rightarrow> 'x + ('b, 'e) result) \<Rightarrow> 'x + ('b, 'e) result" where
  "Result_andThen result fn =
     (if method_isOk result then fn (data result) else Inr (Err (error result)))"

definition Result_unwrapOr :: "('a, 'e) result \<Rightarrow> 'a \<Rightarrow> 'a" where
  "Result_unwrapOr result defaultValue =
     (if method_isOk result then data result else defaultValue)"

definition Result_unwrap ::
  "('e \<Rightarrow> js_error + string option) \<Rightarrow> ('a, 'e) result \<Rightarrow> js_error + 'a" where
  "Result_unwrap stringify result = method_unwrap stringify result"

definition Result_expect ::
  "('e \<Rightarrow> js_error + string option) \<Rightarrow> ('a, 'e) result \<Rightarrow> string \<Rightarrow> js_error + 'a" where
  "Result_expect stringify result message = method_expect stringify result message"

definition Result_isOk :: "('a, 'e) result \<Rightarrow> bool" where
  "Result_isOk result = method_isOk result"

definition Result_isErr :: "('a, 'e) result \<Rightarrow> bool" where
  "Result_isErr result = method_isErr result"

subsection \<open>The three loops over an array of Results\<close>

text \<open>
  \<^verbatim>\<open>for (const result of results)\<close> pulls the elements from the array's iterator one
  by one. The iterator is the list of the elements not pulled yet; each loop returns,
  beside its value, what is left of the iterator when the function returns.
\<close>

fun all_loop ::
  "'a list \<Rightarrow> ('a, 'e) result list \<Rightarrow> ('a list, 'e) result \<times> ('a, 'e) result list" where
  "all_loop values [] = (ok values, [])"
| "all_loop values (result # rest) =
     (if method_isErr result then (Err (error result), rest)
      else all_loop (values @ [data result]) rest)"

definition Result_all :: "('a, 'e) result list \<Rightarrow> ('a list, 'e) result" where
  "Result_all results = fst (all_loop [] results)"

fun collectErrors_loop ::
  "'e list \<Rightarrow> ('a, 'e) result list \<Rightarrow> 'e list \<times> ('a, 'e) result list" where
  "collectErrors_loop errors [] = (errors, [])"
| "collectErrors_loop errors (result # rest) =
     (if method_isErr result then collectErrors_loop (errors @ [error result]) rest
      else collectErrors_loop errors rest)"

definition Result_collectErrors :: "('a, 'e) result list \<Rightarrow> 'e list" where
  "Result_collectErrors results = fst (collectErrors_loop [] results)"

fun partition_loop ::
  "'a list \<Rightarrow> 'e list \<Rightarrow> ('a, 'e) result list \<Rightarrow> ('a list \<times> 'e list) \<times> ('a, 'e) result list" where
  "partition_loop successes failures [] = ((successes, failures), [])"
| "partition_loop successes failures (result # rest) =
     (if method_isOk result then partition_loop (successes @ [data result]) failures rest
      else partition_loop successes (failures @ [error result]) rest)"

definition Result_partition :: "('a, 'e) result list \<Rightarrow> 'a list \<times> 'e list" where
  "Result_partition results = fst (partition_loop [] [] results)"

section \<open>The host's \<^verbatim>\<open>JSON.stringify\<close> on primitive values\<close>

text \<open>
  \<^verbatim>\<open>err(error).unwrap()\<close> and \<^verbatim>\<open>.expect(message)\<close> print \<^verbatim>\<open>error\<close> with the host's
  \<^verbatim>\<open>JSON.stringify\<close>. The error type of a Result is any type of the host language;
  \<open>js_value\<close> is the part of it made of \<^verbatim>\<open>undefined\<close>, \<^verbatim>\<open>null\<close>, booleans,
  strings (of 8-bit code units) and BigInts, and \<open>JSON_stringify\<close> is what ECMAScript
  prescribes on these: \<^verbatim>\<open>undefined\<close> has no JSON text and yields \<^verbatim>\<open>undefined\<close>, a
  string is quoted and escaped, a BigInt makes \<^verbatim>\<open>JSON.stringify\<close> throw a
  \<^verbatim>\<open>TypeError\<close>.
\<close>

datatype js_value = JUndefined | JNull | JBoolean bool | JString string | JBigInt int

definition hex_digit :: "nat \<Rightarrow> char" where
  "hex_digit n = ''0123456789abcdef'' ! (n mod 16)"

definition quote_code_unit :: "char \<Rightarrow> string" where
  "quote_code_unit c =
     (if c = CHR 0x08 then [CHR 0x5C, CHR ''b'']
      else if c = CHR 0x09 then [CHR 0x5C, CHR ''t'']
      else if c = CHR 0x0A then [CHR 0x5C, CHR ''n'']
      else if c = CHR 0x0C then [CHR 0x5C, CHR ''f'']
      else if c = CHR 0x0D then [CHR 0x5C, CHR ''r'']
      else if c = CHR 0x22 then [CHR 0x5C, CHR 0x22]
      else if c = CHR 0x5C then [CHR 0x5C, CHR 0x5C]
      else if (of_char c :: nat) < 32
        then [CHR 0x5C, CHR ''u'', CHR ''0'', CHR ''0'',
              hex_digit (of_char c div 16), hex_digit (of_char c)]
      else [c])"

definition QuoteJSONString :: "string \<Rightarrow> string" where
  "QuoteJSONString s = [CHR 0x22] @ concat (map quote_code_unit s) @ [CHR 0x22]"

fun JSON_stringify :: "js_value \<Rightarrow> js_error + string option" where
  "JSON_stringify JUndefined = Inr None"
| "JSON_stringify JNull = Inr (Some ''null'')"
| "JSON_stringify (JBoolean b) = Inr (Some (if b then ''true'' else ''false''))"
| "JSON_stringify (JString s) = Inr (Some (QuoteJSONString s))"
| "JSON_stringify (JBigInt n) = Inl (TypeError ''Do not know how to serialize a BigInt'')"

section \<open>Promises and \<^verbatim>\<open>Result.tryAsync\<close>\<close>

text \<open>
  A promise is modelled by how it ends: fulfilled with a value, rejected with a reason,
  or never settled. The body of an \<^verbatim>\<open>async\<close> function returns, throws, or stays
  suspended at an \<^verbatim>\<open>await\<close> whose promise never settles; the call of the
  \<^verbatim>\<open>async\<close> function itself never throws and returns the promise that ends as the
  body does. When the promises settle is not part of the model.
\<close>

datatype ('a, 'x) promise = Fulfilled 'a | Rejected 'x | Pending

datatype ('a, 'x) body = Returns 'a | Throws 'x | Suspended

definition sync_call :: "'x + 'a \<Rightarrow> ('a, 'x) body" where
  \<comment> \<open>an ordinary call made inside the body\<close>
  "sync_call c = (case c of Inl x \<Rightarrow> Throws x | Inr v \<Rightarrow> Returns v)"

definition await :: "('a, 'x) promise \<Rightarrow> ('a, 'x) body" where
  "await p = (case p of Fulfilled v \<Rightarrow> Returns v | Rejected x \<Rightarrow> Throws x | Pending \<Rightarrow> Suspended)"

definition then_body :: "('a, 'x) body \<Rightarrow> ('a \<Rightarrow> ('b, 'x) body) \<Rightarrow> ('b, 'x) body" where
  "then_body b k = (case b of Returns v \<Rightarrow> k v | Throws x \<Rightarrow> Throws x | Suspended \<Rightarrow> Suspended)"

definition try_catch_body :: "('a, 'x) body \<Rightarrow> ('x \<Rightarrow> ('a, 'y) body) \<Rightarrow> ('a, 'y) body" where
  "try_catch_body b handler =
     (case b of Returns v \<Rightarrow> Returns v | Throws x \<Rightarrow> handler x | Suspended \<Rightarrow> Suspended)"

definition async_call :: "('a, 'x) body \<Rightarrow> 'y + ('a, 'x) promise" where
  "async_call b =
     Inr (case b of Returns v \<Rightarrow> Fulfilled v | Throws x \<Rightarrow> Rejected x | Suspended \<Rightarrow> Pending)"

definition Result_tryAsync ::
  "(unit \<Rightarrow> 'x + ('a, 'x) promise) \<Rightarrow> 'y + (('a, 'x) result, 'z) promise" where
  "Result_tryAsync fn =
     async_call
       (try_catch_body
          (then_body (sync_call (fn ())) (\<lambda>p. then_body (await p) (\<lambda>d. Returns (ok d))))
          (\<lambda>error. Returns (err error)))"

section \<open>Results as objects in a store\<close>

text \<open>
  \<^verbatim>\<open>ok(data)\<close> and \<^verbatim>\<open>err(error)\<close> build a new object at each call, and
  \<^verbatim>\<open>return this\<close> hands back the object the method was called on. To tell the two
  apart the objects live in a store, a list of Results; a reference is a position in
  the list, and a new object is appended. Every call starts in a store and ends, by a
  return or by a throw, in a store; so does the call of a callback, which may build
  Results of its own. A reference handed to a method is one that \<^verbatim>\<open>ok\<close> or
  \<^verbatim>\<open>err\<close> returned, a position inside the store.
\<close>

type_synonym ref = nat

type_synonym ('a, 'e) store = "('a, 'e) result list"

definition then_in :: "('x + 'v) \<times> 's \<Rightarrow> ('v \<Rightarrow> 's \<Rightarrow> ('x + 'w) \<times> 's) \<Rightarrow> ('x + 'w) \<times> 's" where
  \<comment> \<open>sequencing: the next call starts in the store the first one ended in\<close>
  "then_in c k = (case c of (Inl x, h) \<Rightarrow> (Inl x, h) | (Inr v, h) \<Rightarrow> k v h)"

definition ok_new :: "'a \<Rightarrow> ('a, 'e) store \<Rightarrow> ('x + ref) \<times> ('a, 'e) store" where
  "ok_new d h = (Inr (length h), h @ [Ok d])"

definition err_new :: "'e \<Rightarrow> ('a, 'e) store \<Rightarrow> ('x + ref) \<times> ('a, 'e) store" where
  "err_new e h = (Inr (length h), h @ [Err e])"

definition map_at ::
  "ref \<Rightarrow> ('a \<Rightarrow> ('a, 'e) store \<Rightarrow> ('x + 'a) \<times> ('a, 'e) store) \<Rightarrow> ('a, 'e) store
     \<Rightarrow> ('x + ref) \<times> ('a, 'e) store" where
  "map_at this fn h =
     (case h ! this of
        Ok d \<Rightarrow> then_in (fn d h) (\<lambda>u h'. ok_new u h')
      | Err e \<Rightarrow> (Inr this, h))"

definition mapErr_at ::
  "ref \<Rightarrow> ('e \<Rightarrow> ('a, 'e) store \<Rightarrow> ('x + 'e) \<times> ('a, 'e) store) \<Rightarrow> ('a, 'e) store
     \<Rightarrow> ('x + ref) \<times> ('a, 'e) store" where
  "mapErr_at this fn h =
     (case h ! this of
        Ok d \<Rightarrow> (Inr this, h)
      | Err e \<Rightarrow> then_in (fn e h) (\<lambda>u h'. err_new u h'))"

definition andThen_at ::
  "ref \<Rightarrow> ('a \<Rightarrow> ('a, 'e) store \<Rightarrow> ('x + ref) \<times> ('a, 'e) store) \<Rightarrow> ('a, 'e) store
     \<Rightarrow> ('x + ref) \<times> ('a, 'e) store" where
  "andThen_at this fn h =
     (case h ! this of
        Ok d \<Rightarrow> fn d h
      | Err e \<Rightarrow> (Inr this, h))"

definition Result_map_at ::
  "ref \<Rightarrow> ('a \<Rightarrow> ('a, 'e) store \<Rightarrow> ('x + 'a) \<times> ('a, 'e) store) \<Rightarrow> ('a, 'e) store
     \<Rightarrow> ('x + ref) \<times> ('a, 'e) store" where
  "Result_map_at result fn h =
     (if method_isOk (h ! result)
      then then_in (fn (data (h ! result)) h) (\<lambda>u h'. ok_new u h')
      else (Inr result, h))"

definition Result_mapErr_at ::
  "ref \<Rightarrow> ('e \<Rightarrow> ('a, 'e) store \<Rightarrow> ('x + 'e) \<times> ('a, 'e) store) \<Rightarrow> ('a, 'e) store
     \<Rightarrow> ('x + ref) \<times> ('a, 'e) store" where
  "Result_mapErr_at result fn h =
     (if method_isErr (h ! result)
      then then_in (fn (error (h ! result)) h) (\<lambda>u h'. err_new u h')
      else (Inr result, h))"

definition Result_andThen_at ::
  "ref \<Rightarrow> ('a \<Rightarrow> ('a, 'e) store \<Rightarrow> ('x + ref) \<times> ('a, 'e) store) \<Rightarrow> ('a, 'e) store
     \<Rightarrow> ('x + ref) \<times> ('a, 'e) store" where
  "Result_andThen_at result fn h =
     (if method_isOk (h ! result) then fn (data (h ! result)) h else (Inr result, h))"

text \<open>
  \<open>keeps h c\<close>: the call that started in the store \<open>h\<close> and ended as \<open>c\<close>, by a
  return or by a throw, left every object of \<open>h\<close> as it was (the store it ended in
  begins with \<open>h\<close>).
\<close>

definition keeps :: "('a, 'e) store \<Rightarrow> ('x + 'r) \<times> ('a, 'e) store \<Rightarrow> bool" where
  "keeps h c = prefix h (snd c)"

text \<open>
  Two kinds of callbacks of the first model seen as callbacks on a store: one that
  builds no Result, and one that builds the Result it returns.
\<close>

definition pure_callback :: "('a \<Rightarrow> 'x + 'b) \<Rightarrow> 'a \<Rightarrow> 's \<Rightarrow> ('x + 'b) \<times> 's" where
  "pure_callback f d h = (f d, h)"

definition building_callback ::
  "('a \<Rightarrow> 'x + ('a, 'e) result) \<Rightarrow> 'a \<Rightarrow> ('a, 'e) store \<Rightarrow> ('x + ref) \<times> ('a, 'e) store" where
  "building_callback k d h =
     (case k d of Inl x \<Rightarrow> (Inl x, h) | Inr r \<Rightarrow> (Inr (length h), h @ [r]))"

section \<open>Basic facts\<close>

lemma then_do_simps [simp]:
  "then_do (Inl x) k = Inl x" "then_do (Inr v) k = k v"
  by (simp_all add: then_do_def)

lemma method_isOk_simps [simp]:
  "method_isOk (Ok d) = True" "method_isOk (Err e) = False"
  by (simp_all add: method_isOk_def ok_isOk_def err_isOk_def)

lemma method_isErr_simps [simp]:
  "method_isErr (Ok d) = False" "method_isErr (Err e) = True"
  by (simp_all add: method_isErr_def ok_isErr_def err_isErr_def)

lemma method_isErr_iff: "method_isErr r \<longleftrightarrow> \<not> method_isOk r"
  by (cases r) simp_all

lemma method_isOk_success: "method_isOk r = success r"
  by (cases r) simp_all

section \<open>\<^verbatim>\<open>Result.all\<close>\<close>

lemma all_loop_oks: "all_loop values (map Ok vs) = (Ok (values @ vs), [])"
  by (induction vs arbitrary: "values") (simp_all add: ok_def)

lemma all_loop_first_err: "all_loop values (map Ok vs @ Err e # rest) = (Err e, rest)"
  by (induction vs arbitrary: "values") simp_all

lemma results_shape:
  "(\<exists>vs. results = map Ok vs) \<or> (\<exists>vs e rest. results = map Ok vs @ Err e # rest)"
proof (induction results)
  case Nil
  then show ?case by simp
next
  case (Cons r results)
  show ?case
  proof (cases r)
    case (Ok d)
    from Cons.IH show ?thesis
    proof
      assume "\<exists>vs. results = map Ok vs"
      then obtain vs where "results = map Ok vs" ..
      with Ok have "r # results = map Ok (d # vs)" by simp
      then show ?thesis by (intro disjI1 exI)
    next
      assume "\<exists>vs e rest. results = map Ok vs @ Err e # rest"
      then obtain vs e rest where "results = map Ok vs @ Err e # rest" by blast
      with Ok have "r # results = map Ok (d # vs) @ Err e # rest" by simp
      then show ?thesis by (intro disjI2 exI)
    qed
  next
    case (Err e)
    then have "r # results = map Ok [] @ Err e # results" by simp
    then show ?thesis by (intro disjI2 exI)
  qed
qed

text \<open>
  C1. \<^verbatim>\<open>Result.all\<close> of the empty array is \<^verbatim>\<open>ok([])\<close>; of an array of Oks it is
  \<^verbatim>\<open>ok\<close> of their payloads in order; of an array whose first Err is \<^verbatim>\<open>err(e)\<close> it
  is \<^verbatim>\<open>err(e)\<close>, the error as it was, and the loop returns with every element after
  that Err still in the iterator, not pulled. Every array has one of the two shapes.
\<close>

theorem Result_all_first_err:
  fixes vs :: "'a list" and e :: 'e and rest results :: "('a, 'e) result list"
  shows
  "Result_all ([] :: ('a, 'e) result list) = ok []
   \<and> Result_all (map ok vs :: ('a, 'e) result list) = ok vs
   \<and> Result_all (map ok vs @ err e # rest) = err e
   \<and> all_loop [] (map ok vs @ err e # rest) = (err e, rest)
   \<and> ((\<exists>ws. results = map ok ws) \<or> (\<exists>ws e' rest'. results = map ok ws @ err e' # rest'))"
proof -
  have ok_Ok: "(ok :: 'a \<Rightarrow> ('a, 'e) result) = Ok"
    and err_Err: "(err :: 'e \<Rightarrow> ('a, 'e) result) = Err"
    by (auto simp: ok_def err_def)
  have "Result_all ([] :: ('a, 'e) result list) = ok []"
    by (simp add: Result_all_def)
  moreover have "Result_all (map ok vs :: ('a, 'e) result list) = ok vs"
    by (simp add: Result_all_def ok_Ok all_loop_oks ok_def)
  moreover have "all_loop [] (map ok vs @ err e # rest) = (err e, rest)"
    by (simp add: ok_Ok err_Err all_loop_first_err err_def)
  moreover from this have "Result_all (map ok vs @ err e # rest) = err e"
    by (simp add: Result_all_def)
  moreover have
    "(\<exists>ws. results = map ok ws) \<or> (\<exists>ws e' rest'. results = map ok ws @ err e' # rest')"
    using results_shape [of results] by (simp only: ok_Ok err_Err)
  ultimately show ?thesis by blast
qed

section \<open>\<^verbatim>\<open>unwrap\<close> and \<^verbatim>\<open>expect\<close>\<close>

lemma method_unwrap_ok: "method_unwrap stringify (ok x) = Inr x"
  by (simp add: method_unwrap_def ok_def ok_unwrap_def)

lemma method_expect_ok: "method_expect stringify (ok x) m = Inr x"
  by (simp add: method_expect_def ok_def ok_expect_def)

lemma method_unwrap_err:
  "method_unwrap stringify (err e) =
     (case stringify e of
        Inl t \<Rightarrow> Inl t
      | Inr s \<Rightarrow> Inl (Error (''Called unwrap on an Err value: '' @ template_text s)))"
  by (cases "stringify e") (simp_all add: method_unwrap_def err_def err_unwrap_def)

lemma method_expect_err:
  "method_expect stringify (err e) m =
     (case stringify e of
        Inl t \<Rightarrow> Inl t
      | Inr s \<Rightarrow> Inl (Error (m @ '': '' @ template_text s)))"
  by (cases "stringify e") (simp_all add: method_expect_def err_def err_expect_def)

text \<open>
  Where \<^verbatim>\<open>JSON.stringify(e)\<close> returns \<open>s\<close>, the two methods do what their
  documentation says. On \<^verbatim>\<open>ok(x)\<close>, \<^verbatim>\<open>unwrap\<close> and \<^verbatim>\<open>expect\<close> return \<open>x\<close>. On
  \<^verbatim>\<open>err(e)\<close> both always throw, and what they throw is an \<^verbatim>\<open>Error\<close> whose message
  is \<^verbatim>\<open>Called unwrap on an Err value: \<close>, or the caller's message and \<^verbatim>\<open>: \<close>,
  followed by the text of \<open>s\<close>.
\<close>

lemma unwrap_expect_where_stringify_returns:
  fixes stringify :: "'e \<Rightarrow> js_error + string option" and x :: 'a and e :: 'e
  shows
  "method_unwrap stringify (ok x :: ('a, 'e) result) = Inr x
   \<and> method_expect stringify (ok x :: ('a, 'e) result) m = Inr x
   \<and> (\<exists>t. (method_unwrap stringify (err e) :: js_error + 'a) = Inl t)
   \<and> (\<exists>t. (method_expect stringify (err e) m :: js_error + 'a) = Inl t)
   \<and> (stringify e = Inr s \<longrightarrow>
        (method_unwrap stringify (err e) :: js_error + 'a)
          = Inl (Error (''Called unwrap on an Err value: '' @ template_text s))
        \<and> (method_expect stringify (err e) m :: js_error + 'a)
          = Inl (Error (m @ '': '' @ template_text s)))"
  by (simp add: method_unwrap_ok method_expect_ok method_unwrap_err method_expect_err
        split: sum.split)

text \<open>
  The repository's two tests of the messages: \<^verbatim>\<open>err("not_found")\<close> throws them with
  the quoted string.
\<close>

lemma test_unwrap_expect_messages:
  "(method_unwrap JSON_stringify (err (JString ''not_found'')) :: js_error + unit)
       = Inl (Error (''Called unwrap on an Err value: '' @ CHR 0x22 # ''not_found'' @ [CHR 0x22]))
   \<and> (method_expect JSON_stringify (err (JString ''not_found'')) ''User must exist''
         :: js_error + unit)
       = Inl (Error (''User must exist: '' @ CHR 0x22 # ''not_found'' @ [CHR 0x22]))"
proof -
  have "JSON_stringify (JString ''not_found'')
          = Inr (Some (CHR 0x22 # ''not_found'' @ [CHR 0x22]))"
    by (simp add: QuoteJSONString_def quote_code_unit_def)
  then show ?thesis
    using unwrap_expect_where_stringify_returns [where 'a = unit, of JSON_stringify "()"
         "''User must exist''" "JString ''not_found''"
         "Some (CHR 0x22 # ''not_found'' @ [CHR 0x22])"]
    by (simp add: template_text_def)
qed

text \<open>
  C2. On \<^verbatim>\<open>err(e)\<close>, \<^verbatim>\<open>unwrap\<close> is to throw an \<^verbatim>\<open>Error\<close> whose message is
  \<^verbatim>\<open>Called unwrap on an Err value: \<close> followed by a rendering of \<open>e\<close>, and
  \<^verbatim>\<open>expect\<close> one whose message is the caller's message, \<^verbatim>\<open>: \<close> and the rendering,
  for every \<open>e\<close>. The code does not at \<^verbatim>\<open>err(1n)\<close>: \<^verbatim>\<open>JSON.stringify\<close> throws
  inside the template literal, before the \<^verbatim>\<open>Error\<close> is built, so both
  \<^verbatim>\<open>err(1n).unwrap()\<close> and \<^verbatim>\<open>err(1n).expect("User must exist")\<close> throw the
  \<^verbatim>\<open>TypeError\<close> of \<^verbatim>\<open>JSON.stringify\<close>, which carries neither the fixed literal nor the
  caller's message.
\<close>

theorem unwrap_expect_bigint_throws_TypeError:
  "(method_unwrap JSON_stringify (err (JBigInt 1) :: (unit, js_value) result)
     = Inl (TypeError ''Do not know how to serialize a BigInt''))
   \<and> (method_expect JSON_stringify (err (JBigInt 1) :: (unit, js_value) result)
        ''User must exist''
     = Inl (TypeError ''Do not know how to serialize a BigInt''))
   \<and> \<not> (\<exists>s. method_unwrap JSON_stringify (err (JBigInt 1) :: (unit, js_value) result)
            = Inl (Error (''Called unwrap on an Err value: '' @ s)))
   \<and> \<not> (\<exists>s. method_expect JSON_stringify (err (JBigInt 1) :: (unit, js_value) result)
              ''User must exist''
            = Inl (Error (''User must exist: '' @ s)))"
  by (simp add: method_unwrap_err method_expect_err)

section \<open>The side a transformation leaves alone\<close>

text \<open>
  C3. \<^verbatim>\<open>err(e).map(f)\<close> and \<^verbatim>\<open>err(e).andThen(g)\<close> return \<^verbatim>\<open>err(e)\<close>, and
  \<^verbatim>\<open>ok(x).mapErr(h)\<close> returns \<^verbatim>\<open>ok(x)\<close>, whatever the callback is: the outcome
  does not depend on it, and with a callback that throws at every argument nothing is
  thrown, so the callback is not called. With Results as objects in a store and a
  callback that may throw or build Results, \<^verbatim>\<open>err(e).map(fn)\<close> ends as \<^verbatim>\<open>err(e)\<close>
  alone does: with the same object returned and in the same store; so do
  \<^verbatim>\<open>err(e).andThen(kn)\<close> and \<^verbatim>\<open>ok(x).mapErr(gn)\<close>.
\<close>

theorem noop_side_passes_through:
  fixes e :: 'e and x :: 'a
    and f :: "'a \<Rightarrow> 'x + 'b" and g :: "'a \<Rightarrow> 'x + ('b, 'e) result" and h :: "'e \<Rightarrow> 'x + 'f"
    and st :: "('a, 'e) store"
    and fn :: "'a \<Rightarrow> ('a, 'e) store \<Rightarrow> ('x + 'a) \<times> ('a, 'e) store"
    and gn :: "'e \<Rightarrow> ('a, 'e) store \<Rightarrow> ('x + 'e) \<times> ('a, 'e) store"
    and kn :: "'a \<Rightarrow> ('a, 'e) store \<Rightarrow> ('x + ref) \<times> ('a, 'e) store"
  shows
  "method_map (err e) f = Inr (err e)
   \<and> method_andThen (err e) g = Inr (err e)
   \<and> method_mapErr (ok x) h = Inr (ok x)
   \<and> method_map (err e) (\<lambda>d. Inl thrown :: 'x + 'b) = Inr (err e)
   \<and> method_andThen (err e) (\<lambda>d. Inl thrown :: 'x + ('b, 'e) result) = Inr (err e)
   \<and> method_mapErr (ok x) (\<lambda>d. Inl thrown :: 'x + 'f) = Inr (ok x)
   \<and> then_in (err_new e st) (\<lambda>this. map_at this fn) = err_new e st
   \<and> then_in (err_new e st) (\<lambda>this. andThen_at this kn) = err_new e st
   \<and> then_in (ok_new x st) (\<lambda>this. mapErr_at this gn) = ok_new x st"
  by (simp add: method_map_def method_andThen_def method_mapErr_def err_def ok_def
        err_map_def err_andThen_def ok_mapErr_def
        then_in_def map_at_def andThen_at_def mapErr_at_def err_new_def ok_new_def)

section \<open>The namespace functions and the methods\<close>

lemma Result_map_eq: "Result_map r fn = method_map r fn"
  by (cases r) (simp_all add: Result_map_def method_map_def ok_map_def err_map_def err_def)

lemma Result_mapErr_eq: "Result_mapErr r fn = method_mapErr r fn"
  by (cases r)
     (simp_all add: Result_mapErr_def method_mapErr_def ok_mapErr_def err_mapErr_def ok_def)

lemma Result_andThen_eq: "Result_andThen r fn = method_andThen r fn"
  by (cases r)
     (simp_all add: Result_andThen_def method_andThen_def ok_andThen_def err_andThen_def err_def)

lemma Result_unwrapOr_eq: "Result_unwrapOr r dv = method_unwrapOr r dv"
  by (cases r)
     (simp_all add: Result_unwrapOr_def method_unwrapOr_def ok_unwrapOr_def err_unwrapOr_def)

text \<open>
  C5. Each of \<^verbatim>\<open>Result.map\<close>, \<^verbatim>\<open>Result.mapErr\<close>, \<^verbatim>\<open>Result.andThen\<close>,
  \<^verbatim>\<open>Result.unwrapOr\<close>, \<^verbatim>\<open>Result.unwrap\<close>, \<^verbatim>\<open>Result.expect\<close>, \<^verbatim>\<open>Result.isOk\<close>
  and \<^verbatim>\<open>Result.isErr\<close> has the outcome of the method of the same name called on its
  first argument: the same value returned or the same value thrown.
\<close>

theorem namespace_functions_delegate:
  "Result_map r f = method_map r f
   \<and> Result_mapErr r g = method_mapErr r g
   \<and> Result_andThen r k = method_andThen r k
   \<and> Result_unwrapOr r dv = method_unwrapOr r dv
   \<and> Result_unwrap stringify r = method_unwrap stringify r
   \<and> Result_expect stringify r m = method_expect stringify r m
   \<and> Result_isOk r = method_isOk r
   \<and> Result_isErr r = method_isErr r"
  by (simp add: Result_map_eq Result_mapErr_eq Result_andThen_eq Result_unwrapOr_eq
        Result_unwrap_def Result_expect_def Result_isOk_def Result_isErr_def)

section \<open>The functor laws of \<^verbatim>\<open>map\<close>\<close>

text \<open>
  C8. \<^verbatim>\<open>r.map(v => v)\<close> returns a Result of the variant and payload of \<open>r\<close>, and
  for functions \<open>f\<close> and \<open>g\<close> that neither throw nor have effects,
  \<^verbatim>\<open>ok(x).map(f).map(g)\<close> and \<^verbatim>\<open>ok(x).map(v => g(f(v)))\<close> return the same.
\<close>

theorem map_functor_laws:
  fixes r :: "('a, 'e) result" and x :: 'a and f :: "'a \<Rightarrow> 'b" and g :: "'b \<Rightarrow> 'c"
  shows
  "method_map r (\<lambda>v. Inr v) = (Inr r :: 'x + ('a, 'e) result)
   \<and> then_do (method_map (ok x :: ('a, 'e) result) (\<lambda>v. Inr (f v)))
         (\<lambda>r1. method_map r1 (\<lambda>u. Inr (g u)))
       = (method_map (ok x :: ('a, 'e) result) (\<lambda>v. Inr (g (f v))) :: 'x + ('c, 'e) result)"
  by (cases r) (simp_all add: method_map_def ok_map_def err_map_def ok_def err_def)

section \<open>\<^verbatim>\<open>Result.try\<close> and \<^verbatim>\<open>Result.tryAsync\<close>\<close>

lemma Result_try_returns: "fn () = Inr v \<Longrightarrow> Result_try fn = Inr (ok v)"
  by (simp add: Result_try_def try_catch_def)

lemma Result_try_throws: "fn () = Inl x \<Longrightarrow> Result_try fn = Inr (err x)"
  by (simp add: Result_try_def try_catch_def)

lemma Result_try_no_throw: "Result_try fn \<noteq> Inl y"
  by (cases "fn ()") (simp_all add: Result_try_returns Result_try_throws)

lemma Result_tryAsync_cases:
  "Result_tryAsync fn =
     Inr (case fn () of
            Inl x \<Rightarrow> Fulfilled (err x)
          | Inr (Fulfilled v) \<Rightarrow> Fulfilled (ok v)
          | Inr (Rejected x) \<Rightarrow> Fulfilled (err x)
          | Inr Pending \<Rightarrow> Pending)"
  by (simp add: Result_tryAsync_def async_call_def try_catch_body_def then_body_def
        sync_call_def await_def split: sum.split promise.split)

text \<open>
  C4. \<^verbatim>\<open>Result.try(fn)\<close> returns \<^verbatim>\<open>ok(v)\<close> when the thunk returns \<open>v\<close> and
  \<^verbatim>\<open>err(x)\<close> when the thunk throws \<open>x\<close>, and never throws. \<^verbatim>\<open>Result.tryAsync(fn)\<close>
  never throws and returns a promise that is fulfilled with \<^verbatim>\<open>ok(w)\<close> when the
  thunk's promise is fulfilled with \<open>w\<close>, fulfilled with \<^verbatim>\<open>err(reason)\<close> when the
  thunk's promise is rejected with \<open>reason\<close>, and never rejected; it stays unsettled
  exactly when the thunk's promise never settles.
\<close>

theorem try_and_tryAsync_capture:
  fixes fn :: "unit \<Rightarrow> 'x + 'a" and afn :: "unit \<Rightarrow> 'x + ('a, 'x) promise"
  shows
  "(fn () = Inr v \<longrightarrow> (Result_try fn :: 'y + ('a, 'x) result) = Inr (ok v))
   \<and> (fn () = Inl x \<longrightarrow> (Result_try fn :: 'y + ('a, 'x) result) = Inr (err x))
   \<and> (\<forall>y. (Result_try fn :: 'y + ('a, 'x) result) \<noteq> Inl y)
   \<and> (afn () = Inr (Fulfilled w) \<longrightarrow>
        (Result_tryAsync afn :: 'y + (('a, 'x) result, 'z) promise) = Inr (Fulfilled (ok w)))
   \<and> (afn () = Inr (Rejected reason) \<longrightarrow>
        (Result_tryAsync afn :: 'y + (('a, 'x) result, 'z) promise)
          = Inr (Fulfilled (err reason)))
   \<and> (\<forall>y. (Result_tryAsync afn :: 'y + (('a, 'x) result, 'z) promise) \<noteq> Inl y)
   \<and> (\<forall>z. (Result_tryAsync afn :: 'y + (('a, 'x) result, 'z) promise) \<noteq> Inr (Rejected z))
   \<and> ((Result_tryAsync afn :: 'y + (('a, 'x) result, 'z) promise) = Inr Pending
        \<longleftrightarrow> afn () = Inr Pending)"
  by (simp add: Result_try_returns Result_try_throws Result_try_no_throw Result_tryAsync_cases
        split: sum.split promise.split)

text \<open>
  The four cases at the inputs of the repository's tests: a thunk returning 5, a thunk
  throwing, a promise fulfilled with 42, a rejected promise.
\<close>

theorem try_and_tryAsync_capture_witness:
  "(Result_try (\<lambda>_. Inr (5::int)) :: unit + (int, string) result) = Inr (ok 5)
   \<and> (Result_try (\<lambda>_. Inl ''boom'') :: unit + (int, string) result) = Inr (err ''boom'')
   \<and> (Result_tryAsync (\<lambda>_. Inr (Fulfilled (42::int)))
         :: unit + ((int, string) result, unit) promise)
        = Inr (Fulfilled (ok 42))
   \<and> (Result_tryAsync (\<lambda>_. Inr (Rejected ''Async error''))
         :: unit + ((int, string) result, unit) promise)
        = Inr (Fulfilled (err ''Async error''))"
  using
    try_and_tryAsync_capture [where 'y = unit and 'z = unit
      and fn = "\<lambda>_. Inr (5::int) :: string + int" and v = 5
      and afn = "\<lambda>_. Inr (Fulfilled (42::int)) :: string + (int, string) promise" and w = 42]
    try_and_tryAsync_capture [where 'y = unit and 'z = unit
      and fn = "\<lambda>_. Inl ''boom'' :: string + int" and x = "''boom''"
      and afn = "\<lambda>_. Inr (Rejected ''Async error'') :: string + (int, string) promise"
      and reason = "''Async error''"]
  by simp

text \<open>
  C10. When the thunk throws \<open>x\<close> before it returns any promise,
  \<^verbatim>\<open>Result.tryAsync\<close> still returns a promise, fulfilled with \<^verbatim>\<open>err(x)\<close>.
\<close>

theorem tryAsync_sync_throw:
  fixes fn :: "unit \<Rightarrow> 'x + ('a, 'x) promise"
  assumes "fn () = Inl x"
  shows "(Result_tryAsync fn :: 'y + (('a, 'x) result, 'z) promise) = Inr (Fulfilled (err x))"
  using assms by (simp add: Result_tryAsync_cases)

theorem tryAsync_sync_throw_witness:
  "(Result_tryAsync (\<lambda>_. Inl ''boom'' :: string + (int, string) promise)
      :: unit + ((int, string) result, unit) promise) = Inr (Fulfilled (err ''boom''))"
  by (rule tryAsync_sync_throw) simp

section \<open>\<^verbatim>\<open>Result.partition\<close> and \<^verbatim>\<open>Result.collectErrors\<close>\<close>

lemma partition_loop_eq:
  "partition_loop successes failures results =
     ((successes @ map data (filter method_isOk results),
       failures @ map error (filter method_isErr results)), [])"
  by (induction results arbitrary: successes failures) (simp_all add: method_isErr_iff)

text \<open>
  C6. \<^verbatim>\<open>Result.partition\<close> returns the payloads of the Ok elements and the errors of
  the Err elements, each in the order of the array; the two lengths add up to the
  length of the array; its one loop returns with the iterator empty.
\<close>

theorem Result_partition_ordered:
  "Result_partition results =
     (map data (filter method_isOk results), map error (filter method_isErr results))
   \<and> length (fst (Result_partition results)) + length (snd (Result_partition results))
       = length results
   \<and> snd (partition_loop [] [] results) = []"
proof -
  have "length (filter method_isOk results) + length (filter method_isErr results)
          = length results"
    using sum_length_filter_compl [of method_isOk results]
    by (simp add: method_isErr_iff [abs_def])
  then show ?thesis
    by (simp add: Result_partition_def partition_loop_eq)
qed

lemma collectErrors_loop_eq:
  "collectErrors_loop errors results = (errors @ map error (filter method_isErr results), [])"
  by (induction results arbitrary: errors) simp_all

text \<open>
  C7. \<^verbatim>\<open>Result.collectErrors\<close> returns the errors of the Err elements in the order of
  the array, and its loop returns with the iterator empty: an Err element anywhere adds
  its error at its place, an Ok element adds nothing, and an array of Oks gives the
  empty array.
\<close>

theorem Result_collectErrors_all_errors:
  "Result_collectErrors results = map error (filter method_isErr results)
   \<and> snd (collectErrors_loop [] results) = []
   \<and> Result_collectErrors (xs @ err e # ys)
       = Result_collectErrors xs @ e # Result_collectErrors ys
   \<and> Result_collectErrors (xs @ ok d # ys) = Result_collectErrors xs @ Result_collectErrors ys
   \<and> Result_collectErrors (map ok vs) = []"
  by (simp add: Result_collectErrors_def collectErrors_loop_eq ok_def err_def comp_def)

section \<open>New objects and \<^verbatim>\<open>this\<close>\<close>

lemma then_in_simps [simp]:
  "then_in (Inl x, h) k = (Inl x, h)" "then_in (Inr v, h) k = k v h"
  by (simp_all add: then_in_def)

lemma Result_map_at_eq: "Result_map_at this fn h = map_at this fn h"
  by (cases "h ! this") (simp_all add: Result_map_at_def map_at_def)

lemma Result_mapErr_at_eq: "Result_mapErr_at this fn h = mapErr_at this fn h"
  by (cases "h ! this") (simp_all add: Result_mapErr_at_def mapErr_at_def)

lemma Result_andThen_at_eq: "Result_andThen_at this fn h = andThen_at this fn h"
  by (cases "h ! this") (simp_all add: Result_andThen_at_def andThen_at_def)

lemma map_at_Ok:
  "h ! this = Ok d \<Longrightarrow> fn d h = (Inr u, h1) \<Longrightarrow>
     map_at this fn h = (Inr (length h1), h1 @ [Ok u])"
  by (simp add: map_at_def ok_new_def)

lemma map_at_Ok_throws:
  "h ! this = Ok d \<Longrightarrow> fn d h = (Inl x, h1) \<Longrightarrow> map_at this fn h = (Inl x, h1)"
  by (simp add: map_at_def)

lemma map_at_Err: "h ! this = Err e \<Longrightarrow> map_at this fn h = (Inr this, h)"
  by (simp add: map_at_def)

lemma mapErr_at_Err:
  "h ! this = Err e \<Longrightarrow> fn e h = (Inr u, h1) \<Longrightarrow>
     mapErr_at this fn h = (Inr (length h1), h1 @ [Err u])"
  by (simp add: mapErr_at_def err_new_def)

lemma mapErr_at_Err_throws:
  "h ! this = Err e \<Longrightarrow> fn e h = (Inl x, h1) \<Longrightarrow> mapErr_at this fn h = (Inl x, h1)"
  by (simp add: mapErr_at_def)

lemma mapErr_at_Ok: "h ! this = Ok d \<Longrightarrow> mapErr_at this fn h = (Inr this, h)"
  by (simp add: mapErr_at_def)

lemma andThen_at_Ok: "h ! this = Ok d \<Longrightarrow> andThen_at this fn h = fn d h"
  by (simp add: andThen_at_def)

lemma andThen_at_Err: "h ! this = Err e \<Longrightarrow> andThen_at this fn h = (Inr this, h)"
  by (simp add: andThen_at_def)

lemma keeps_map_at:
  assumes "\<forall>d. keeps h (fn d h)"
  shows "keeps h (map_at this fn h)"
proof (cases "h ! this")
  case (Ok d)
  obtain c h1 where c: "fn d h = (c, h1)" by (cases "fn d h")
  with assms have p: "prefix h h1" by (metis keeps_def snd_conv)
  show ?thesis
  proof (cases c)
    case (Inl x)
    with Ok c p show ?thesis by (simp add: map_at_Ok_throws keeps_def)
  next
    case (Inr u)
    from p have "prefix h (h1 @ [Ok u])" by (rule prefix_prefix)
    with Ok c Inr show ?thesis by (simp add: map_at_Ok keeps_def)
  qed
next
  case (Err e)
  then show ?thesis by (simp add: map_at_Err keeps_def)
qed

lemma keeps_mapErr_at:
  assumes "\<forall>e. keeps h (fn e h)"
  shows "keeps h (mapErr_at this fn h)"
proof (cases "h ! this")
  case (Err e)
  obtain c h1 where c: "fn e h = (c, h1)" by (cases "fn e h")
  with assms have p: "prefix h h1" by (metis keeps_def snd_conv)
  show ?thesis
  proof (cases c)
    case (Inl x)
    with Err c p show ?thesis by (simp add: mapErr_at_Err_throws keeps_def)
  next
    case (Inr u)
    from p have "prefix h (h1 @ [Err u])" by (rule prefix_prefix)
    with Err c Inr show ?thesis by (simp add: mapErr_at_Err keeps_def)
  qed
next
  case (Ok d)
  then show ?thesis by (simp add: mapErr_at_Ok keeps_def)
qed

lemma keeps_andThen_at: "\<forall>d. keeps h (fn d h) \<Longrightarrow> keeps h (andThen_at this fn h)"
  by (cases "h ! this") (simp_all add: andThen_at_Ok andThen_at_Err keeps_def)

lemma new_ref_distinct: "this < length h \<Longrightarrow> prefix h h1 \<Longrightarrow> length h1 \<noteq> this"
  by (auto dest: prefix_length_le)

text \<open>
  C9, as the code has it. No operation changes a Result that exists: \<^verbatim>\<open>ok\<close> and
  \<^verbatim>\<open>err\<close> append one object, and \<^verbatim>\<open>map\<close>, \<^verbatim>\<open>mapErr\<close> and \<^verbatim>\<open>andThen\<close> leave
  every existing object as it was when their callback does, whether they return or
  throw. \<^verbatim>\<open>map\<close> on an Ok and \<^verbatim>\<open>mapErr\<close> on an Err return a new object, built
  after the callback returned, at a reference other than the input's. \<^verbatim>\<open>andThen\<close>
  on an Ok returns what its callback returns. The branches that do nothing,
  \<^verbatim>\<open>mapErr\<close> on an Ok and \<^verbatim>\<open>map\<close> and \<^verbatim>\<open>andThen\<close> on an Err, return the input
  object itself and build nothing. The namespace functions do as the methods.
\<close>

theorem transformations_new_or_same:
  fixes h :: "('a, 'e) store"
    and fn :: "'a \<Rightarrow> ('a, 'e) store \<Rightarrow> ('x + 'a) \<times> ('a, 'e) store"
    and gn :: "'e \<Rightarrow> ('a, 'e) store \<Rightarrow> ('x + 'e) \<times> ('a, 'e) store"
    and kn :: "'a \<Rightarrow> ('a, 'e) store \<Rightarrow> ('x + ref) \<times> ('a, 'e) store"
  shows
  "(ok_new d h :: ('x + ref) \<times> ('a, 'e) store) = (Inr (length h), h @ [Ok d])
   \<and> (err_new e h :: ('x + ref) \<times> ('a, 'e) store) = (Inr (length h), h @ [Err e])
   \<and> ((\<forall>d. keeps h (fn d h)) \<longrightarrow> keeps h (map_at this fn h))
   \<and> ((\<forall>e. keeps h (gn e h)) \<longrightarrow> keeps h (mapErr_at this gn h))
   \<and> ((\<forall>d. keeps h (kn d h)) \<longrightarrow> keeps h (andThen_at this kn h))
   \<and> (this < length h \<and> h ! this = Ok d \<and> fn d h = (Inr u, h1) \<and> prefix h h1 \<longrightarrow>
        map_at this fn h = (Inr (length h1), h1 @ [Ok u]) \<and> length h1 \<noteq> this)
   \<and> (this < length h \<and> h ! this = Err e \<and> gn e h = (Inr v, h1) \<and> prefix h h1 \<longrightarrow>
        mapErr_at this gn h = (Inr (length h1), h1 @ [Err v]) \<and> length h1 \<noteq> this)
   \<and> (this < length h \<and> h ! this = Ok d \<longrightarrow>
        andThen_at this kn h = kn d h \<and> mapErr_at this gn h = (Inr this, h))
   \<and> (this < length h \<and> h ! this = Err e \<longrightarrow>
        map_at this fn h = (Inr this, h) \<and> andThen_at this kn h = (Inr this, h))
   \<and> Result_map_at this fn h = map_at this fn h
   \<and> Result_mapErr_at this gn h = mapErr_at this gn h
   \<and> Result_andThen_at this kn h = andThen_at this kn h"
  using new_ref_distinct [of this h h1]
  by (simp add: ok_new_def err_new_def keeps_map_at keeps_mapErr_at keeps_andThen_at
        map_at_Ok map_at_Err mapErr_at_Ok mapErr_at_Err andThen_at_Ok andThen_at_Err
        Result_map_at_eq Result_mapErr_at_eq Result_andThen_at_eq)

text \<open>
  The store after \<^verbatim>\<open>ok(1)\<close> and \<^verbatim>\<open>err("e")\<close>, the first at reference 0 and the
  second at reference 1, with the callbacks \<^verbatim>\<open>d => d + 1\<close>, \<^verbatim>\<open>e => e + "!"\<close> and
  \<^verbatim>\<open>d => ok(d + 1)\<close>: the three calls that transform build the object at reference 2,
  the three that do nothing return the reference they were called on.
\<close>

theorem transformations_new_or_same_witness:
  "keeps [Ok 1, Err ''e'']
     (map_at 0 (\<lambda>d h. (Inr (d + 1), h)) [Ok (1::int), Err ''e'']
        :: (unit + ref) \<times> (int, string) store)
   \<and> keeps [Ok 1, Err ''e'']
     (mapErr_at 1 (\<lambda>e h. (Inr (e @ ''!''), h)) [Ok (1::int), Err ''e'']
        :: (unit + ref) \<times> (int, string) store)
   \<and> keeps [Ok 1, Err ''e'']
     (andThen_at 0 (\<lambda>d h. ok_new (d + 1) h) [Ok (1::int), Err ''e'']
        :: (unit + ref) \<times> (int, string) store)
   \<and> (map_at 0 (\<lambda>d h. (Inr (d + 1), h)) [Ok (1::int), Err ''e'']
        :: (unit + ref) \<times> (int, string) store)
        = (Inr 2, [Ok 1, Err ''e'', Ok 2])
   \<and> (mapErr_at 1 (\<lambda>e h. (Inr (e @ ''!''), h)) [Ok (1::int), Err ''e'']
        :: (unit + ref) \<times> (int, string) store)
        = (Inr 2, [Ok 1, Err ''e'', Err ''e!''])
   \<and> (andThen_at 0 (\<lambda>d h. ok_new (d + 1) h) [Ok (1::int), Err ''e'']
        :: (unit + ref) \<times> (int, string) store)
        = (Inr 2, [Ok 1, Err ''e'', Ok 2])
   \<and> (mapErr_at 0 (\<lambda>e h. (Inr (e @ ''!''), h)) [Ok (1::int), Err ''e'']
        :: (unit + ref) \<times> (int, string) store)
        = (Inr 0, [Ok 1, Err ''e''])
   \<and> (map_at 1 (\<lambda>d h. (Inr (d + 1), h)) [Ok (1::int), Err ''e'']
        :: (unit + ref) \<times> (int, string) store)
        = (Inr 1, [Ok 1, Err ''e''])
   \<and> (andThen_at 1 (\<lambda>d h. ok_new (d + 1) h) [Ok (1::int), Err ''e'']
        :: (unit + ref) \<times> (int, string) store)
        = (Inr 1, [Ok 1, Err ''e''])"
  using
    transformations_new_or_same [where 'x = unit and h = "[Ok (1::int), Err ''e'']"
      and this = 0 and d = 1 and u = 2 and ?h1.0 = "[Ok (1::int), Err ''e'']"
      and fn = "\<lambda>d h. (Inr (d + 1), h)" and gn = "\<lambda>e h. (Inr (e @ ''!''), h)"
      and kn = "\<lambda>d h. ok_new (d + 1) h"]
    transformations_new_or_same [where 'x = unit and h = "[Ok (1::int), Err ''e'']"
      and this = 1 and e = "''e''" and v = "''e!''" and ?h1.0 = "[Ok (1::int), Err ''e'']"
      and fn = "\<lambda>d h. (Inr (d + 1), h)" and gn = "\<lambda>e h. (Inr (e @ ''!''), h)"
      and kn = "\<lambda>d h. ok_new (d + 1) h"]
  by (simp add: ok_new_def keeps_def)

text \<open>
  C9 as it is worded fails on the branches that do nothing: \<^verbatim>\<open>err("e").map(f)\<close>,
  \<^verbatim>\<open>err("e").andThen(f)\<close> and \<^verbatim>\<open>ok(42).mapErr(f)\<close>, called on the object at
  reference 0, return reference 0 and a store with the one object it had. On an Ok,
  \<^verbatim>\<open>andThen\<close> returns the input when its callback does.
\<close>

theorem noop_same_object_counterexample:
  "(map_at 0 (\<lambda>d h. (Inr (d + 1), h)) [Err ''e''] :: (unit + ref) \<times> (int, string) store)
      = (Inr 0, [Err ''e''])
   \<and> (andThen_at 0 (\<lambda>d h. ok_new (d + 1) h) [Err ''e'']
         :: (unit + ref) \<times> (int, string) store)
      = (Inr 0, [Err ''e''])
   \<and> (mapErr_at 0 (\<lambda>e h. (Inr (e @ ''!''), h)) [Ok 42]
         :: (unit + ref) \<times> (int, string) store)
      = (Inr 0, [Ok 42])
   \<and> (andThen_at 0 (\<lambda>d h. (Inr 0, h)) [Ok 42] :: (unit + ref) \<times> (int, string) store)
      = (Inr 0, [Ok 42])
   \<and> \<not> (\<forall>(h :: (int, string) store) this
            (fn :: int \<Rightarrow> (int, string) store \<Rightarrow> (unit + int) \<times> (int, string) store) r h'.
          this < length h \<and> map_at this fn h = (Inr r, h') \<longrightarrow> r \<noteq> this)"
proof -
  have m: "(map_at 0 (\<lambda>d h. (Inr (d + 1), h)) [Err ''e'']
         :: (unit + ref) \<times> (int, string) store)
      = (Inr 0, [Err ''e''])"
    by (simp add: map_at_def)
  have a: "(andThen_at 0 (\<lambda>d h. ok_new (d + 1) h) [Err ''e'']
         :: (unit + ref) \<times> (int, string) store)
      = (Inr 0, [Err ''e''])"
    by (simp add: andThen_at_def)
  have e: "(mapErr_at 0 (\<lambda>e h. (Inr (e @ ''!''), h)) [Ok 42]
         :: (unit + ref) \<times> (int, string) store)
      = (Inr 0, [Ok 42])"
    by (simp add: mapErr_at_def)
  have k: "(andThen_at 0 (\<lambda>d h. (Inr 0, h)) [Ok 42] :: (unit + ref) \<times> (int, string) store)
      = (Inr 0, [Ok 42])"
    by (simp add: andThen_at_def)
  have "\<not> (\<forall>(h :: (int, string) store) this
            (fn :: int \<Rightarrow> (int, string) store \<Rightarrow> (unit + int) \<times> (int, string) store) r h'.
          this < length h \<and> map_at this fn h = (Inr r, h') \<longrightarrow> r \<noteq> this)"
  proof
    assume all: "\<forall>(h :: (int, string) store) this
            (fn :: int \<Rightarrow> (int, string) store \<Rightarrow> (unit + int) \<times> (int, string) store) r h'.
          this < length h \<and> map_at this fn h = (Inr r, h') \<longrightarrow> r \<noteq> this"
    have "(0::nat) < length [Err ''e'' :: (int, string) result]" by simp
    with all m have "(0::nat) \<noteq> 0" by blast
    then show False by simp
  qed
  with m a e k show ?thesis by blast
qed

subsection \<open>The object returned holds the value of the first model\<close>

text \<open>
  With a callback of the first model, a method on the object at \<open>this\<close> throws what
  the method of the first model throws on the value of that object, and returns a
  reference to an object whose value is what the method of the first model returns.
\<close>

lemma map_at_value:
  "map_sum id (nth (snd (map_at this (pure_callback f) h)))
       (fst (map_at this (pure_callback f) h))
     = method_map (h ! this) f"
  by (cases "h ! this"; cases "f (data (h ! this))")
     (simp_all add: map_at_def pure_callback_def method_map_def ok_map_def err_map_def
        ok_new_def ok_def err_def)

lemma mapErr_at_value:
  "map_sum id (nth (snd (mapErr_at this (pure_callback g) h)))
       (fst (mapErr_at this (pure_callback g) h))
     = method_mapErr (h ! this) g"
  by (cases "h ! this"; cases "g (error (h ! this))")
     (simp_all add: mapErr_at_def pure_callback_def method_mapErr_def ok_mapErr_def
        err_mapErr_def err_new_def ok_def err_def)

lemma andThen_at_value:
  "map_sum id (nth (snd (andThen_at this (building_callback k) h)))
       (fst (andThen_at this (building_callback k) h))
     = method_andThen (h ! this) k"
  by (cases "h ! this"; cases "k (data (h ! this))")
     (simp_all add: andThen_at_def building_callback_def method_andThen_def ok_andThen_def
        err_andThen_def err_def)

section \<open>The repository's tests of the array functions\<close>

lemma test_all_combines:
  "Result_all [ok (1::int), ok 2, ok 3] = (ok [1, 2, 3] :: (int list, string) result)"
  by (simp add: Result_all_def ok_def)

lemma test_all_first_error:
  "Result_all [ok (1::int), err ''error1'', ok 3, err ''error2''] = err ''error1''"
  by (simp add: Result_all_def ok_def err_def)

lemma test_collectErrors:
  "Result_collectErrors [ok (1::int), err ''error1'', ok 3, err ''error2'']
     = [''error1'', ''error2'']"
  by (simp add: Result_collectErrors_def ok_def err_def)

lemma test_partition:
  "Result_partition [ok (1::int), err ''error1'', ok 3, err ''error2'']
     = ([1, 3], [''error1'', ''error2''])"
  by (simp add: Result_partition_def ok_def err_def)

end
